theory Spec2Isabelle
  imports Main "HOL-Library.Word"
begin

unbundle bit_operations_syntax

section \<open>Machine types and exceptions\<close>

type_synonym u8 = "8 word"
type_synonym u32 = "32 word"

text \<open>
  The C++ exceptions that the modelled functions throw. A function that may throw
  returns a sum whose left injection carries the exception.
\<close>

datatype exn =
    runtime_error string
  | length_error string
  | logic_error string

text \<open>
  \<^verbatim>\<open>enum class command_id : uint8_t\<close> and \<^verbatim>\<open>enum class command_status : uint8_t\<close>.
  The header decoder produces them by \<^verbatim>\<open>static_cast\<close> from an arbitrary byte, so a value
  of either type is any byte; the enumerators are named constants.
\<close>

type_synonym command_id = u8
type_synonym command_status = u8

definition bind_req :: command_id where "bind_req = 0x01"
definition bind_resp :: command_id where "bind_resp = 0x81"
definition stream_req :: command_id where "stream_req = 0x02"
definition stream_resp :: command_id where "stream_resp = 0x82"
definition unbind_req :: command_id where "unbind_req = 0x03"
definition unbind_resp :: command_id where "unbind_resp = 0x83"
definition enquire_link_req :: command_id where "enquire_link_req = 0x04"
definition enquire_link_resp :: command_id where "enquire_link_resp = 0x84"

definition rok :: command_status where "rok = 0x00"
definition rfail :: command_status where "rfail = 0xFF"

section \<open>Header codec (session\_impl.inl)\<close>

definition header_length :: nat where
  "header_length = 10"

text \<open>The lambda \<^verbatim>\<open>read_u32\<close> of \<^verbatim>\<open>deserialize_header\<close>, on a span of four bytes.\<close>

definition read_u32 :: "u8 list \<Rightarrow> u32" where
  "read_u32 b = push_bit 24 (ucast (b ! 0)) OR push_bit 16 (ucast (b ! 1))
                 OR push_bit 8 (ucast (b ! 2)) OR ucast (b ! 3)"

text \<open>\<^verbatim>\<open>buf.subspan(off, n)\<close>.\<close>

definition subspan :: "u8 list \<Rightarrow> nat \<Rightarrow> nat \<Rightarrow> u8 list" where
  "subspan buf off n = take n (drop off buf)"

definition deserialize_header ::
  "u8 list \<Rightarrow> exn + (u32 \<times> command_id \<times> command_status \<times> u32)" where
  "deserialize_header buf =
     (if length buf < header_length then Inl (runtime_error ''Invalid header size'')
      else
        let cmd_len = read_u32 (subspan buf 0 4);
            cmd_id = buf ! 4;
            cmd_status = buf ! 5;
            seq_num = read_u32 (subspan buf 6 4)
        in if unat cmd_len < header_length
           then Inl (runtime_error ''Invalid command_length'')
           else Inr (cmd_len, cmd_id, cmd_status, seq_num))"

text \<open>
  The lambda \<^verbatim>\<open>write_u32\<close> of \<^verbatim>\<open>serialize_header\<close>: it stores four bytes into the
  sub-span of the header array that starts at offset \<open>off\<close>.
\<close>

definition write_u32 :: "u8 list \<Rightarrow> nat \<Rightarrow> u32 \<Rightarrow> u8 list" where
  "write_u32 b off val =
     b[off := ucast (drop_bit 24 val AND 0xFF),
       off + 1 := ucast (drop_bit 16 val AND 0xFF),
       off + 2 := ucast (drop_bit 8 val AND 0xFF),
       off + 3 := ucast (val AND 0xFF)]"

definition serialize_header ::
  "u32 \<Rightarrow> command_id \<Rightarrow> u32 \<Rightarrow> command_status \<Rightarrow> u8 list" where
  "serialize_header cmd_len cmd_id seq_num status =
     (let buf0 = replicate header_length 0;
          buf1 = write_u32 buf0 0 cmd_len;
          buf2 = buf1[4 := cmd_id];
          buf3 = buf2[5 := status]
      in write_u32 buf3 6 seq_num)"

text \<open>The four bytes that \<^verbatim>\<open>write_u32\<close> stores, most significant first.\<close>

definition u32_bytes :: "u32 \<Rightarrow> u8 list" where
  "u32_bytes val = [ucast (drop_bit 24 val AND 0xFF), ucast (drop_bit 16 val AND 0xFF),
                    ucast (drop_bit 8 val AND 0xFF), ucast (val AND 0xFF)]"

section \<open>Flat receive buffer (detail/flat\_buffer.hpp)\<close>

text \<open>
  \<^verbatim>\<open>flat_buffer<T, N>\<close> with \<^verbatim>\<open>T = uint8_t\<close>. The array \<^verbatim>\<open>buf_\<close> is the list \<open>buf\<close>, whose
  length is the capacity \<open>N\<close>; the pointers \<^verbatim>\<open>in_\<close>, \<^verbatim>\<open>out_\<close> and \<^verbatim>\<open>last_\<close> are offsets from
  \<^verbatim>\<open>buf_.data()\<close>. Sizes are \<^verbatim>\<open>size_t\<close> values, modelled as \<open>nat\<close>: under \<open>is_valid\<close> no
  subtraction of the modelled functions goes below zero.
\<close>

record flat_buffer =
  buf :: "u8 list"
  in_ptr :: nat
  out_ptr :: nat
  last_ptr :: nat

definition is_valid :: "flat_buffer \<Rightarrow> bool" where
  "is_valid fb \<longleftrightarrow>
     in_ptr fb \<le> length (buf fb) \<and> out_ptr fb \<le> length (buf fb)
     \<and> last_ptr fb \<le> length (buf fb)
     \<and> in_ptr fb \<le> out_ptr fb \<and> out_ptr fb \<le> last_ptr fb"

definition capacity :: "flat_buffer \<Rightarrow> nat" where
  "capacity fb = length (buf fb)"

definition dist :: "nat \<Rightarrow> nat \<Rightarrow> nat" where
  "dist first lst = lst - first"

definition size_fb :: "flat_buffer \<Rightarrow> nat" where
  "size_fb fb = dist (in_ptr fb) (out_ptr fb)"

text \<open>\<^verbatim>\<open>data()\<close>: the readable bytes \<open>[in, out)\<close>.\<close>

definition data :: "flat_buffer \<Rightarrow> u8 list" where
  "data fb = take (size_fb fb) (drop (in_ptr fb) (buf fb))"

text \<open>\<^verbatim>\<open>std::memmove(b + dst, b + src, cnt)\<close> inside one array.\<close>

definition memmove :: "u8 list \<Rightarrow> nat \<Rightarrow> nat \<Rightarrow> nat \<Rightarrow> u8 list" where
  "memmove b dst src cnt = take dst b @ take cnt (drop src b) @ drop (dst + cnt) b"

text \<open>
  \<^verbatim>\<open>prepare(n)\<close> returns the new buffer state and either the exception or the writable
  region as (offset, length).
\<close>

definition prepare :: "flat_buffer \<Rightarrow> nat \<Rightarrow> flat_buffer \<times> (exn + nat \<times> nat)" where
  "prepare fb n =
     (if n \<le> dist (out_ptr fb) (length (buf fb))
      then (fb\<lparr>last_ptr := out_ptr fb + n\<rparr>, Inr (out_ptr fb, n))
      else
        let len = size_fb fb in
        if n > capacity fb - len
        then (fb, Inl (length_error ''flat_buffer::prepare buffer overflow''))
        else
          let b = (if len > 0 then memmove (buf fb) 0 (in_ptr fb) len else buf fb);
              fb' = fb\<lparr>buf := b, in_ptr := 0, out_ptr := len, last_ptr := len + n\<rparr>
          in (fb', Inr (out_ptr fb', n)))"

definition commit :: "flat_buffer \<Rightarrow> nat \<Rightarrow> flat_buffer" where
  "commit fb n = fb\<lparr>out_ptr := out_ptr fb + min n (last_ptr fb - out_ptr fb)\<rparr>"

definition consume :: "flat_buffer \<Rightarrow> nat \<Rightarrow> flat_buffer" where
  "consume fb n =
     (if n \<ge> size_fb fb then fb\<lparr>in_ptr := 0, out_ptr := 0\<rparr>
      else fb\<lparr>in_ptr := in_ptr fb + n\<rparr>)"

section \<open>Sequence counter (session\_impl.hpp)\<close>

text \<open>
  \<^verbatim>\<open>next_sequence_number\<close> pre-increments the 32-bit member \<^verbatim>\<open>sequence_number_\<close>,
  replaces 0 by 1, and returns the member. The model returns the value and the new
  member.
\<close>

definition next_sequence_number :: "u32 \<Rightarrow> u32 \<times> u32" where
  "next_sequence_number sequence_number =
     (let s1 = sequence_number + 1;
          s2 = (if s1 = 0 then 1 else s1)
      in (s2, s2))"

text \<open>
  The member after \<open>n\<close> calls, from its initial value \<^verbatim>\<open>sequence_number_{0}\<close>, and the value
  that call number \<open>n + 1\<close> returns.
\<close>

fun seq_state :: "nat \<Rightarrow> u32" where
  "seq_state 0 = 0"
| "seq_state (Suc n) = snd (next_sequence_number (seq_state n))"

definition seq_result :: "nat \<Rightarrow> u32" where
  "seq_result n = fst (next_sequence_number (seq_state n))"

section \<open>Session configuration and backpressure controller\<close>

text \<open>\<^verbatim>\<open>struct session_config\<close> (session\_config.hpp); \<^verbatim>\<open>size_t\<close> fields are \<open>nat\<close>.\<close>

record session_config =
  send_buf_capacity :: nat
  send_buf_threshold :: nat
  receive_buf_size :: nat
  small_body_size :: nat
  max_command_length :: u32
  unbind_timeout :: nat
  backpressure_low_watermark :: nat
  backpressure_high_watermark :: nat

definition default_config :: session_config where
  "default_config =
     \<lparr>send_buf_capacity = 1024 * 1024,
      send_buf_threshold = 1024 * 1024,
      receive_buf_size = 1024 * 1024,
      small_body_size = 256,
      max_command_length = 10 * 1024 * 1024,
      unbind_timeout = 5,
      backpressure_low_watermark = 512 * 1024,
      backpressure_high_watermark = 1024 * 1024\<rparr>"

text \<open>\<^verbatim>\<open>session_config::is_valid\<close>, which \<^verbatim>\<open>session_builder::build\<close> requires.\<close>

definition config_is_valid :: "session_config \<Rightarrow> bool" where
  "config_is_valid c \<longleftrightarrow>
     send_buf_capacity c > 0 \<and>
     send_buf_threshold c \<le> send_buf_capacity c \<and>
     receive_buf_size c > 0 \<and>
     unat (max_command_length c) > 0 \<and>
     backpressure_low_watermark c \<le> backpressure_high_watermark c \<and>
     backpressure_high_watermark c \<le> send_buf_capacity c"

text \<open>\<^verbatim>\<open>class backpressure_controller\<close> (backpressure\_controller.hpp).\<close>

record backpressure_controller =
  low_watermark :: nat
  high_watermark :: nat
  bp_paused :: bool

definition new_backpressure_controller :: "nat \<Rightarrow> nat \<Rightarrow> backpressure_controller" where
  "new_backpressure_controller low high =
     \<lparr>low_watermark = low, high_watermark = high, bp_paused = False\<rparr>"

definition should_pause ::
  "backpressure_controller \<Rightarrow> nat \<Rightarrow> bool \<times> backpressure_controller" where
  "should_pause bp current_size =
     (if \<not> bp_paused bp \<and> current_size > high_watermark bp
      then (True, bp\<lparr>bp_paused := True\<rparr>)
      else (False, bp))"

definition should_resume ::
  "backpressure_controller \<Rightarrow> nat \<Rightarrow> bool \<times> backpressure_controller" where
  "should_resume bp current_size =
     (if bp_paused bp \<and> current_size < low_watermark bp
      then (True, bp\<lparr>bp_paused := False\<rparr>)
      else (False, bp))"

section \<open>Body serialisation (common/serialization.hpp, pdu/*.hpp)\<close>

text \<open>
  A \<^verbatim>\<open>std::string\<close> is its bytes. The serialisers append to the vector; one that throws
  leaves the vector as the fields before it made it. The model returns the vector and
  the exception, if any. A member of a PDU is the serialiser of its field
  (\<^verbatim>\<open>c_octet_str<MAXLEN>\<close> or \<^verbatim>\<open>octet_str\<close>), the name given to \<^verbatim>\<open>meta\<close> and the value.
\<close>

type_synonym std_string = "u8 list"

datatype field =
    c_octet_str nat string std_string
  | octet_str string std_string

fun field_serialize_to :: "u8 list \<Rightarrow> field \<Rightarrow> u8 list \<times> exn option" where
  "field_serialize_to vec (c_octet_str MAXLEN name val) =
     (if length val \<ge> MAXLEN
      then (vec, Some (length_error (''c_octet_str exceed its limit, field_name:'' @ name)))
      else (vec @ val @ [0], None))"
| "field_serialize_to vec (octet_str name val) = (vec @ val, None)"

text \<open>
  The four PDU structs. The enum \<^verbatim>\<open>bind_type\<close> is declared outside the given sources and
  is not serialised; it is the type parameter \<open>'bt\<close>.
\<close>

datatype 'bt pdu =
    bind_request 'bt std_string
  | bind_response 'bt std_string
  | stream_request std_string
  | stream_response std_string

fun command_id_of :: "'bt pdu \<Rightarrow> command_id" where
  "command_id_of (bind_request _ _) = bind_req"
| "command_id_of (bind_response _ _) = bind_resp"
| "command_id_of (stream_request _) = stream_req"
| "command_id_of (stream_response _) = stream_resp"

text \<open>\<^verbatim>\<open>detail::members<PDU>()\<close>: the serialised fields, in order.\<close>

fun members :: "'bt pdu \<Rightarrow> field list" where
  "members (bind_request _ system_id) = [c_octet_str 20 ''system_id'' system_id]"
| "members (bind_response _ system_id) = [c_octet_str 20 ''system_id'' system_id]"
| "members (stream_request message_body) = [octet_str ''message_body'' message_body]"
| "members (stream_response message_body) = [octet_str ''message_body'' message_body]"

text \<open>The fold expression of \<^verbatim>\<open>serialize_to\<close>: field after field, until one throws.\<close>

fun serialize_fields :: "u8 list \<Rightarrow> field list \<Rightarrow> u8 list \<times> exn option" where
  "serialize_fields vec [] = (vec, None)"
| "serialize_fields vec (f # fs) =
     (case field_serialize_to vec f of
        (vec', Some e) \<Rightarrow> (vec', Some e)
      | (vec', None) \<Rightarrow> serialize_fields vec' fs)"

definition serialize_to :: "u8 list \<Rightarrow> 'bt pdu \<Rightarrow> u8 list \<times> exn option" where
  "serialize_to vec p = serialize_fields vec (members p)"

text \<open>
  The two field deserialisers that the PDUs use. Each returns the string and the rest
  of the span. The apostrophe of the first message is written as its character code.
\<close>

definition c_octet_str_deserialize ::
  "nat \<Rightarrow> string \<Rightarrow> u8 list \<Rightarrow> exn + std_string \<times> u8 list" where
  "c_octet_str_deserialize MAXLEN name bytes =
     (if 0 \<notin> set bytes
      then Inl (length_error (''c_octet_str can'' @ [CHR 0x27]
                  @ ''t find null character, field_name:'' @ name))
      else
        let str = takeWhile (\<lambda>b. b \<noteq> 0) bytes
        in if length str \<ge> MAXLEN
           then Inl (length_error (''c_octet_str exceed its limit, field_name:'' @ name))
           else Inr (str, drop (length str + 1) bytes))"

definition octet_str_deserialize :: "string \<Rightarrow> u8 list \<Rightarrow> exn + std_string \<times> u8 list" where
  "octet_str_deserialize name bytes = (if bytes = [] then Inr ([], bytes) else Inr (bytes, []))"

text \<open>
  \<^verbatim>\<open>deserialize<PDU>(bytes, args...)\<close> for the four PDUs: the responses can be omitted
  (an empty span gives the PDU of the arguments alone), every PDU has one member.
\<close>

definition deserialize_bind_request :: "'bt \<Rightarrow> u8 list \<Rightarrow> exn + 'bt pdu" where
  "deserialize_bind_request bt bytes =
     (case c_octet_str_deserialize 20 ''system_id'' bytes of
        Inl e \<Rightarrow> Inl e
      | Inr (system_id, _) \<Rightarrow> Inr (bind_request bt system_id))"

definition deserialize_bind_response :: "'bt \<Rightarrow> u8 list \<Rightarrow> exn + 'bt pdu" where
  "deserialize_bind_response bt bytes =
     (if bytes = [] then Inr (bind_response bt [])
      else
        (case c_octet_str_deserialize 20 ''system_id'' bytes of
           Inl e \<Rightarrow> Inl e
         | Inr (system_id, _) \<Rightarrow> Inr (bind_response bt system_id)))"

definition deserialize_stream_request :: "u8 list \<Rightarrow> exn + 'bt pdu" where
  "deserialize_stream_request bytes =
     (case octet_str_deserialize ''message_body'' bytes of
        Inl e \<Rightarrow> Inl e
      | Inr (message_body, _) \<Rightarrow> Inr (stream_request message_body))"

definition deserialize_stream_response :: "u8 list \<Rightarrow> exn + 'bt pdu" where
  "deserialize_stream_response bytes =
     (if bytes = [] then Inr (stream_response [])
      else
        (case octet_str_deserialize ''message_body'' bytes of
           Inl e \<Rightarrow> Inl e
         | Inr (message_body, _) \<Rightarrow> Inr (stream_response message_body)))"

section \<open>Session (session\_impl.hpp, session\_impl.inl, session\_state.hpp)\<close>

datatype session_state = open_state | unbinding_state | closed_state

fun state_name :: "session_state \<Rightarrow> string" where
  "state_name open_state = ''open''"
| "state_name unbinding_state = ''unbinding''"
| "state_name closed_state = ''closed''"

fun can_send :: "session_state \<Rightarrow> bool" where
  "can_send open_state = True"
| "can_send unbinding_state = False"
| "can_send closed_state = False"

fun can_unbind :: "session_state \<Rightarrow> bool" where
  "can_unbind open_state = True"
| "can_unbind unbinding_state = False"
| "can_unbind closed_state = False"

datatype receiving_state = receiving | pending_pause | paused

text \<open>\<^verbatim>\<open>e.what()\<close>.\<close>

fun what :: "exn \<Rightarrow> string" where
  "what (runtime_error m) = m"
| "what (length_error m) = m"
| "what (logic_error m) = m"

text \<open>
  The reason passed to \<^verbatim>\<open>close\<close>. The text built by \<^verbatim>\<open>fmt::format\<close> for an oversized frame
  is kept as its two arguments.
\<close>

datatype close_reason =
    command_length_exceeds_max u32 u32
  | error_message string

text \<open>
  What the session does to its collaborators (socket, timer, user callbacks, error
  handler) and the calls of its flow-control methods, in the order it does them.
  \<open>dispatched\<close> stands for the call \<^verbatim>\<open>dispatch_message(cmd_id, cmd_status, seq_num, body)\<close>;
  \<open>flow_paused\<close> and \<open>flow_resumed\<close> record that \<^verbatim>\<open>should_pause\<close> and \<^verbatim>\<open>should_resume\<close>
  have answered true, where the session asks them.
\<close>

datatype event =
    dispatched command_id command_status u32 "u8 list"
  | on_request_called u32
  | on_response_called u32 command_status
  | socket_closed
  | close_handler_called "close_reason option"
  | async_receive_started nat nat
  | async_write_started "u8 list"
  | unbind_timer_started
  | send_buf_available_called
  | pause_receiving_called
  | resume_receiving_called
  | flow_paused
  | flow_resumed
  | protocol_error_reported string
  | deserialization_error_reported string command_id "u8 list"

record session_metrics =
  bytes_sent :: nat
  bytes_received :: nat
  messages_sent :: nat
  messages_received :: nat
  errors :: nat
  is_closed :: bool

record session =
  config :: session_config
  state :: session_state
  close_initiated :: bool
  sequence_number :: u32
  writing_send_buf :: "u8 list"
  pending_send_buf :: "u8 list"
  receive_buf :: flat_buffer
  receiving_st :: receiving_state
  backpressure :: backpressure_controller
  has_protocol_handler :: bool
  has_error_handler :: bool
  has_close_handler :: bool
  has_send_buf_available_handler :: bool
  metrics :: session_metrics
  events :: "event list"

text \<open>
  The constructor: the receive buffer is \<^verbatim>\<open>flat_buffer<uint8_t, 1024 * 1024>\<close>, the state
  is open, receiving is paused until \<^verbatim>\<open>start\<close>; the constructor installs the logging
  error handler.
\<close>

definition new_session :: "session_config \<Rightarrow> session" where
  "new_session c =
     \<lparr>config = c,
      state = open_state,
      close_initiated = False,
      sequence_number = 0,
      writing_send_buf = [],
      pending_send_buf = [],
      receive_buf = \<lparr>buf = replicate (1024 * 1024) 0, in_ptr = 0, out_ptr = 0, last_ptr = 0\<rparr>,
      receiving_st = paused,
      backpressure = new_backpressure_controller (backpressure_low_watermark c)
                       (backpressure_high_watermark c),
      has_protocol_handler = False,
      has_error_handler = True,
      has_close_handler = False,
      has_send_buf_available_handler = False,
      metrics = \<lparr>bytes_sent = 0, bytes_received = 0, messages_sent = 0,
                 messages_received = 0, errors = 0, is_closed = False\<rparr>,
      events = []\<rparr>"

definition log_event :: "event \<Rightarrow> session \<Rightarrow> session" where
  "log_event e s = s\<lparr>events := events s @ [e]\<rparr>"





text \<open>
  \<^verbatim>\<open>do_close\<close> and \<^verbatim>\<open>close\<close>. The threading policy's \<^verbatim>\<open>dispatch\<close> is the direct call of
  the single-threaded policy.
\<close>

definition do_close :: "session \<Rightarrow> close_reason \<Rightarrow> session" where
  "do_close s reason =
     (if state s = closed_state then s
      else
        let err = (if state s = open_state then Some reason else None);
            s1 = s\<lparr>receiving_st := paused\<rparr>;
            s2 = log_event socket_closed s1;
            s3 = s2\<lparr>state := closed_state, metrics := (metrics s2)\<lparr>is_closed := True\<rparr>\<rparr>;
            had_close_handler = has_close_handler s3;
            s4 = s3\<lparr>has_protocol_handler := False, has_error_handler := False,
                    has_send_buf_available_handler := False, has_close_handler := False\<rparr>
        in if had_close_handler then log_event (close_handler_called err) s4 else s4)"

definition close :: "session \<Rightarrow> close_reason \<Rightarrow> session" where
  "close s reason =
     (if close_initiated s then s
      else do_close (s\<lparr>close_initiated := True\<rparr>) reason)"

text \<open>
  How a call ends: it returns, an exception leaves it, it has written outside an
  array (undefined behaviour in C++), recorded with the number of elements written and
  the size of the array, or the model has used up the number of nested runs of the
  receive loop that it was given (\<open>out_of_fuel\<close>, see \<open>do_receive_loop\<close>). Only an
  exception can be caught.
\<close>

datatype outcome =
    returned
  | threw exn
  | out_of_bounds_write nat nat
  | out_of_fuel

text \<open>
  \<^verbatim>\<open>std::copy_n(src, n, dst.begin())\<close> into an array \<open>dst\<close>: it writes \<open>n\<close> elements from
  the start of \<open>dst\<close>, which is inside the array only when \<open>n \<le> length dst\<close>.
\<close>

definition copy_n :: "u8 list \<Rightarrow> nat \<Rightarrow> u8 list \<Rightarrow> outcome + u8 list" where
  "copy_n src n dst =
     (if n \<le> length dst then Inr (take n src @ drop n dst)
      else Inl (out_of_bounds_write n (length dst)))"

subsection \<open>The user's code\<close>

text \<open>
  The protocol handler is code of the user that runs inside the session's call and may
  call the session back. It is given by the calls of the session's public methods that it
  makes, in order, and the exception that it ends with, if it throws; an exception
  that leaves one of these calls leaves the handler. \<open>bi_direction\<close> is the enumerator
  \<^verbatim>\<open>bind_type::bi_direction\<close>. The \<^verbatim>\<open>send_buf_available\<close> callback, the close handler and the
  error handler are recorded as events when they are called.
\<close>

datatype 'bt api_call =
    call_send_response "'bt pdu" u32 command_status
  | call_send_request "'bt pdu"
  | call_close string
  | call_pause_receiving
  | call_resume_receiving
  | call_unbind
  | call_start

type_synonym 'bt script = "'bt api_call list \<times> exn option"

record 'bt env =
  bi_direction :: 'bt
  on_request :: "'bt pdu \<Rightarrow> u32 \<Rightarrow> 'bt script"
  on_response :: "'bt pdu \<Rightarrow> u32 \<Rightarrow> command_status \<Rightarrow> 'bt script"

subsection \<open>Flow control and the send path\<close>

text \<open>
  \<^verbatim>\<open>do_send\<close> resumes receiving, which runs \<^verbatim>\<open>do_receive\<close>, which dispatches the buffered
  messages to the handler, which sends. The functions between \<^verbatim>\<open>do_receive\<close> and itself
  take \<^verbatim>\<open>do_receive\<close> as their first argument \<open>rcv\<close>; the recursion is closed in
  \<open>do_receive_loop\<close>.
\<close>

type_synonym receive_call = "session \<Rightarrow> session \<times> outcome"

definition do_resume_receiving :: "receive_call \<Rightarrow> session \<Rightarrow> session \<times> outcome" where
  "do_resume_receiving rcv s =
     (let prev = receiving_st s;
          s1 = s\<lparr>receiving_st := receiving\<rparr>
      in if prev = paused then rcv s1 else (s1, returned))"

definition do_start :: "receive_call \<Rightarrow> session \<Rightarrow> session \<times> outcome" where
  "do_start rcv s = do_resume_receiving rcv s"

text \<open>\<^verbatim>\<open>std::vector::resize(n)\<close>: truncate, or extend with zero bytes.\<close>

definition resize :: "u8 list \<Rightarrow> nat \<Rightarrow> u8 list" where
  "resize v n = take n v @ replicate (n - length v) 0"

definition pause_receiving :: "session \<Rightarrow> session" where
  "pause_receiving s =
     (let s1 = log_event pause_receiving_called s
      in if receiving_st s1 = receiving then s1\<lparr>receiving_st := pending_pause\<rparr> else s1)"

definition resume_receiving :: "receive_call \<Rightarrow> session \<Rightarrow> session \<times> outcome" where
  "resume_receiving rcv s = do_resume_receiving rcv (log_event resume_receiving_called s)"

text \<open>
  \<^verbatim>\<open>do_send\<close>. An exception that leaves \<^verbatim>\<open>resume_receiving\<close> leaves \<^verbatim>\<open>do_send\<close> before
  the callback is called and the write is started. An exception of the user's callback
  is caught.
\<close>

definition do_send :: "receive_call \<Rightarrow> session \<Rightarrow> session \<times> outcome" where
  "do_send rcv s =
     (if writing_send_buf s \<noteq> [] then (s, returned)
      else
        let s1 = s\<lparr>writing_send_buf := pending_send_buf s,
                   pending_send_buf := writing_send_buf s\<rparr>;
            (resume, bp) = should_resume (backpressure s1) (length (pending_send_buf s1));
            s2 = s1\<lparr>backpressure := bp\<rparr>
        in
          if resume then
            (case resume_receiving rcv (log_event flow_resumed s2) of
               (s3, returned) \<Rightarrow>
                 let s4 = (if has_send_buf_available_handler s3
                           then log_event send_buf_available_called s3 else s3)
                 in (log_event (async_write_started (writing_send_buf s4)) s4, returned)
             | (s3, fault) \<Rightarrow> (s3, fault))
          else (log_event (async_write_started (writing_send_buf s2)) s2, returned))"

text \<open>
  \<^verbatim>\<open>do_send_impl\<close>. The difference of two \<^verbatim>\<open>size_t\<close> values is passed to the
  \<^verbatim>\<open>uint32_t\<close> parameter of \<^verbatim>\<open>serialize_header\<close>.
\<close>

definition do_send_impl ::
  "receive_call \<Rightarrow> session \<Rightarrow> 'bt pdu \<Rightarrow> u32 \<Rightarrow> command_status \<Rightarrow> session \<times> outcome" where
  "do_send_impl rcv s p seq_num status =
     (if \<not> can_send (state s) then
        ((if has_error_handler s
          then log_event (protocol_error_reported
                            (''Cannot send in state: '' @ state_name (state s))) s
          else s),
         returned)
      else
        let prev_size = length (pending_send_buf s);
            v0 = resize (pending_send_buf s) (prev_size + header_length)
        in
          (case serialize_to v0 p of
             (v1, Some e) \<Rightarrow> (s\<lparr>pending_send_buf := resize v1 prev_size\<rparr>, threw e)
           | (v1, None) \<Rightarrow>
               let cmd_len = length v1 - prev_size;
                   header = serialize_header (of_nat cmd_len) (command_id_of p) seq_num status;
                   v2 = take prev_size v1 @ header @ drop (prev_size + header_length) v1;
                   s1 = s\<lparr>pending_send_buf := v2,
                          metrics := (metrics s)\<lparr>messages_sent :=
                            messages_sent (metrics s) + 1\<rparr>\<rparr>;
                   (pause, bp) = should_pause (backpressure s1) (length (pending_send_buf s1));
                   s2 = s1\<lparr>backpressure := bp\<rparr>;
                   s3 = (if pause then pause_receiving (log_event flow_paused s2) else s2)
               in do_send rcv s3))"

definition send_command ::
  "receive_call \<Rightarrow> session \<Rightarrow> command_id \<Rightarrow> u32 \<Rightarrow> command_status \<Rightarrow> session \<times> outcome" where
  "send_command rcv s cmd_id seq_num status =
     (let (seq_num', s1) =
            (if seq_num = 0
             then (let (r, n) = next_sequence_number (sequence_number s)
                   in (r, s\<lparr>sequence_number := n\<rparr>))
             else (seq_num, s));
          header = serialize_header (of_nat header_length) cmd_id seq_num' status;
          s2 = s1\<lparr>pending_send_buf := pending_send_buf s1 @ header,
                 metrics := (metrics s1)\<lparr>messages_sent := messages_sent (metrics s1) + 1\<rparr>\<rparr>
      in do_send rcv s2)"


text \<open>
  \<^verbatim>\<open>do_unbind\<close> and the handler of the unbind timer (its argument says whether the wait
  ended with an error code).
\<close>

definition do_unbind :: "receive_call \<Rightarrow> session \<Rightarrow> session \<times> outcome" where
  "do_unbind rcv s =
     (if \<not> can_unbind (state s) then (s, returned)
      else
        (case send_command rcv (s\<lparr>state := unbinding_state\<rparr>) unbind_req 0 rok of
           (s1, returned) \<Rightarrow> (log_event unbind_timer_started s1, returned)
         | (s1, fault) \<Rightarrow> (s1, fault)))"


subsection \<open>The public methods, as the user's code calls them\<close>

fun run_call :: "receive_call \<Rightarrow> session \<Rightarrow> 'bt api_call \<Rightarrow> session \<times> outcome" where
  "run_call rcv s (call_send_response p seq_num status) =
     do_send_impl rcv s p seq_num status"
| "run_call rcv s (call_send_request p) =
     (let (seq, n) = next_sequence_number (sequence_number s)
      in do_send_impl rcv (s\<lparr>sequence_number := n\<rparr>) p seq rok)"
| "run_call rcv s (call_close reason) = (close s (error_message reason), returned)"
| "run_call rcv s call_pause_receiving = (pause_receiving s, returned)"
| "run_call rcv s call_resume_receiving = resume_receiving rcv s"
| "run_call rcv s call_unbind = do_unbind rcv s"
| "run_call rcv s call_start = do_start rcv s"

fun run_calls :: "receive_call \<Rightarrow> session \<Rightarrow> 'bt api_call list \<Rightarrow> session \<times> outcome" where
  "run_calls rcv s [] = (s, returned)"
| "run_calls rcv s (c # cs) =
     (case run_call rcv s c of
        (s1, returned) \<Rightarrow> run_calls rcv s1 cs
      | (s1, fault) \<Rightarrow> (s1, fault))"

definition run_handler :: "receive_call \<Rightarrow> session \<Rightarrow> 'bt script \<Rightarrow> session \<times> outcome" where
  "run_handler rcv s h =
     (case run_calls rcv s (fst h) of
        (s1, returned) \<Rightarrow> (s1, (case snd h of None \<Rightarrow> returned | Some e \<Rightarrow> threw e))
      | (s1, fault) \<Rightarrow> (s1, fault))"

subsection \<open>Dispatch of a received message\<close>

definition is_response :: "command_id \<Rightarrow> bool" where
  "is_response cmd_id \<longleftrightarrow> cmd_id AND 0x80 \<noteq> 0"

text \<open>
  The two \<^verbatim>\<open>catch\<close> blocks of \<^verbatim>\<open>handle_request\<close> and \<^verbatim>\<open>handle_response\<close>: the inner one, for
  an exception of the handler (\<open>kind\<close> is \<open>''request''\<close> or \<open>''response''\<close>), and the outer
  one.
\<close>

definition handler_exception :: "session \<Rightarrow> string \<Rightarrow> exn \<Rightarrow> session" where
  "handler_exception s kind e =
     (let s1 = s\<lparr>metrics := (metrics s)\<lparr>errors := errors (metrics s) + 1\<rparr>\<rparr>;
          s2 = (if has_error_handler s1
                then log_event (protocol_error_reported (''Handler exception: '' @ what e)) s1
                else s1)
      in close s2 (error_message (''Exception in '' @ kind @ '' handler: '' @ what e)))"

definition deserialization_exception ::
  "session \<Rightarrow> exn \<Rightarrow> command_id \<Rightarrow> u8 list \<Rightarrow> session" where
  "deserialization_exception s ex cmd_id body =
     (let s1 = s\<lparr>metrics := (metrics s)\<lparr>errors := errors (metrics s) + 1\<rparr>\<rparr>;
          s2 = (if has_error_handler s1
                then log_event (deserialization_error_reported (what ex) cmd_id body) s1
                else s1)
      in close s2 (error_message (''Deserialization error: '' @ what ex)))"

text \<open>
  \<^verbatim>\<open>handle_response\<close>. The \<^verbatim>\<open>switch\<close> gives the response (\<open>None\<close> is \<^verbatim>\<open>std::monostate\<close>) or
  throws; then the handler is called if there is a response and a handler.
\<close>

definition handle_response ::
  "receive_call \<Rightarrow> 'bt env \<Rightarrow> session \<Rightarrow> command_id \<Rightarrow> command_status \<Rightarrow> u32 \<Rightarrow> u8 list
     \<Rightarrow> session \<times> outcome" where
  "handle_response rcv env s cmd_id cmd_status seq_num body =
     (if cmd_id = unbind_resp then (close s (error_message ''unbind_resp received''), returned)
      else
        (case (if cmd_id = enquire_link_resp then Inr None
               else if cmd_id = bind_resp
               then map_sum id Some (deserialize_bind_response (bi_direction env) body)
               else if cmd_id = stream_resp
               then map_sum id Some (deserialize_stream_response body)
               else Inl (logic_error ''Unknown response PDU'')) of
           Inl ex \<Rightarrow> (deserialization_exception s ex cmd_id body, returned)
         | Inr None \<Rightarrow> (s, returned)
         | Inr (Some resp) \<Rightarrow>
             if has_protocol_handler s then
               (case run_handler rcv (log_event (on_response_called seq_num cmd_status) s)
                       (on_response env resp seq_num cmd_status) of
                  (s1, threw e) \<Rightarrow> (handler_exception s1 ''response'' e, returned)
                | (s1, oc) \<Rightarrow> (s1, oc))
             else (s, returned)))"

text \<open>
  \<^verbatim>\<open>handle_request\<close>. An exception that leaves \<^verbatim>\<open>send_command\<close> is caught by the outer
  \<^verbatim>\<open>catch\<close> block.
\<close>

definition handle_request ::
  "receive_call \<Rightarrow> 'bt env \<Rightarrow> session \<Rightarrow> command_id \<Rightarrow> command_status \<Rightarrow> u32 \<Rightarrow> u8 list
     \<Rightarrow> session \<times> outcome" where
  "handle_request rcv env s cmd_id cmd_status seq_num body =
     (if cmd_id = enquire_link_req then
        (case send_command rcv s enquire_link_resp seq_num rok of
           (s1, threw ex) \<Rightarrow> (deserialization_exception s1 ex cmd_id body, returned)
         | (s1, oc) \<Rightarrow> (s1, oc))
      else if cmd_id = unbind_req then
        (let s0 = (if can_unbind (state s) then s\<lparr>state := unbinding_state\<rparr> else s)
         in case send_command rcv s0 unbind_resp seq_num rok of
              (s1, returned) \<Rightarrow> (close s1 (error_message ''unbind_req received''), returned)
            | (s1, threw ex) \<Rightarrow> (deserialization_exception s1 ex cmd_id body, returned)
            | (s1, oc) \<Rightarrow> (s1, oc))
      else
        (case (if cmd_id = bind_req then deserialize_bind_request (bi_direction env) body
               else if cmd_id = stream_req then deserialize_stream_request body
               else Inl (logic_error ''Unknown request PDU'')) of
           Inl ex \<Rightarrow> (deserialization_exception s ex cmd_id body, returned)
         | Inr req \<Rightarrow>
             if has_protocol_handler s then
               (case run_handler rcv (log_event (on_request_called seq_num) s)
                       (on_request env req seq_num) of
                  (s1, threw e) \<Rightarrow> (handler_exception s1 ''request'' e, returned)
                | (s1, oc) \<Rightarrow> (s1, oc))
             else (s, returned)))"

definition dispatch_message ::
  "receive_call \<Rightarrow> 'bt env \<Rightarrow> session \<Rightarrow> command_id \<Rightarrow> command_status \<Rightarrow> u32 \<Rightarrow> u8 list
     \<Rightarrow> session \<times> outcome" where
  "dispatch_message rcv env s cmd_id cmd_status seq_num body =
     (let s0 = log_event (dispatched cmd_id cmd_status seq_num body) s
      in if is_response cmd_id then handle_response rcv env s0 cmd_id cmd_status seq_num body
         else handle_request rcv env s0 cmd_id cmd_status seq_num body)"

text \<open>
  \<^verbatim>\<open>process_message\<close>. The stack buffer is \<^verbatim>\<open>std::array<uint8_t, 256>\<close>; its initial
  contents are indeterminate in C++ and zero here (only the bytes copied into it are
  read back). \<open>receive_buf_.begin() + k\<close> is the suffix of the array from offset
  \<open>in + k\<close>. The message is counted when \<^verbatim>\<open>dispatch_message\<close> has returned.
\<close>

definition process_message ::
  "receive_call \<Rightarrow> 'bt env \<Rightarrow> session \<Rightarrow> u32 \<Rightarrow> command_id \<Rightarrow> command_status \<Rightarrow> u32
     \<Rightarrow> session \<times> outcome" where
  "process_message rcv env s cmd_len cmd_id cmd_status seq_num =
     (let body_size = unat cmd_len - header_length;
          rb = receive_buf s
      in
        if body_size \<le> small_body_size (config s) \<and> body_size > 0 then
          (case copy_n (drop (in_ptr rb + header_length) (buf rb)) body_size (replicate 256 0) of
             Inl fault \<Rightarrow> (s, fault)
           | Inr stack_buf \<Rightarrow>
               let s1 = s\<lparr>receive_buf := consume rb (unat cmd_len)\<rparr>;
                   body_span = take body_size stack_buf
               in (case dispatch_message rcv env s1 cmd_id cmd_status seq_num body_span of
                     (s2, returned) \<Rightarrow>
                       (s2\<lparr>metrics := (metrics s2)\<lparr>messages_received :=
                              messages_received (metrics s2) + 1\<rparr>\<rparr>, returned)
                   | (s2, fault) \<Rightarrow> (s2, fault)))
        else if body_size > 0 then
          (let body_buf = take body_size (drop (in_ptr rb + header_length) (buf rb));
               s1 = s\<lparr>receive_buf := consume rb (unat cmd_len)\<rparr>
           in (case dispatch_message rcv env s1 cmd_id cmd_status seq_num body_buf of
                 (s2, returned) \<Rightarrow>
                   (s2\<lparr>metrics := (metrics s2)\<lparr>messages_received :=
                          messages_received (metrics s2) + 1\<rparr>\<rparr>, returned)
               | (s2, fault) \<Rightarrow> (s2, fault)))
        else
          (let s1 = s\<lparr>receive_buf := consume rb (unat cmd_len)\<rparr>
           in (case dispatch_message rcv env s1 cmd_id cmd_status seq_num [] of
                 (s2, returned) \<Rightarrow>
                   (s2\<lparr>metrics := (metrics s2)\<lparr>messages_received :=
                          messages_received (metrics s2) + 1\<rparr>\<rparr>, returned)
               | (s2, fault) \<Rightarrow> (s2, fault))))"

subsection \<open>The receive loop\<close>

text \<open>
  \<^verbatim>\<open>do_receive\<close>, given its \<^verbatim>\<open>while (true)\<close> loop: the loop, then the settling of a
  pending pause, then \<^verbatim>\<open>socket_.async_receive(receive_buf_.prepare(64 * 1024), ...)\<close>,
  whose \<^verbatim>\<open>prepare\<close> may throw. The loop ends by \<^verbatim>\<open>break\<close> (\<open>Inr False\<close>: the code after the
  loop runs), by \<^verbatim>\<open>return\<close> (\<open>Inr True\<close>), or because an exception or a fault leaves it
  (\<open>Inl\<close>).
\<close>

definition do_receive_after ::
  "(session \<Rightarrow> session \<times> (outcome + bool)) \<Rightarrow> session \<Rightarrow> session \<times> outcome" where
  "do_receive_after loop s =
     (case loop s of
        (s1, Inl fault) \<Rightarrow> (s1, fault)
      | (s1, Inr True) \<Rightarrow> (s1, returned)
      | (s1, Inr False) \<Rightarrow>
          if receiving_st s1 = pending_pause then (s1\<lparr>receiving_st := paused\<rparr>, returned)
          else
            (case prepare (receive_buf s1) (64 * 1024) of
               (fb, Inl e) \<Rightarrow> (s1\<lparr>receive_buf := fb\<rparr>, threw e)
             | (fb, Inr (off, n)) \<Rightarrow>
                 (log_event (async_receive_started off n) (s1\<lparr>receive_buf := fb\<rparr>),
                  returned)))"

text \<open>
  The loop. A message is processed by \<^verbatim>\<open>process_message\<close>, inside which the handler may
  bring the session back into \<^verbatim>\<open>do_receive\<close>, on the rest of the receive buffer. The
  second argument bounds the number of runs of the loop body that are under way or
  done, one inside the other or one after the other: the loop body takes one from it,
  for the handler and for the next iteration. The exception of \<^verbatim>\<open>deserialize_header\<close> is
  not caught by \<^verbatim>\<open>do_receive\<close>.
\<close>

primrec do_receive_loop :: "'bt env \<Rightarrow> nat \<Rightarrow> session \<Rightarrow> session \<times> (outcome + bool)" where
  "do_receive_loop env 0 s = (s, Inl out_of_fuel)"
| "do_receive_loop env (Suc fuel) s =
     (if receiving_st s \<noteq> receiving then (s, Inr False)
      else if size_fb (receive_buf s) < header_length then (s, Inr False)
      else
        (case deserialize_header
                (take header_length (drop (in_ptr (receive_buf s)) (buf (receive_buf s)))) of
           Inl e \<Rightarrow> (s, Inl (threw e))
         | Inr (cmd_len, cmd_id, cmd_status, seq_num) \<Rightarrow>
             if unat cmd_len > unat (max_command_length (config s))
             then (close s (command_length_exceeds_max cmd_len (max_command_length (config s))),
                   Inr True)
             else if size_fb (receive_buf s) < unat cmd_len then (s, Inr False)
             else
               (case process_message (do_receive_after (do_receive_loop env fuel)) env s
                       cmd_len cmd_id cmd_status seq_num of
                  (s', returned) \<Rightarrow> do_receive_loop env fuel s'
                | (s', fault) \<Rightarrow> (s', Inl fault))))"

definition do_receive :: "'bt env \<Rightarrow> nat \<Rightarrow> session \<Rightarrow> session \<times> outcome" where
  "do_receive env fuel = do_receive_after (do_receive_loop env fuel)"

text \<open>
  The completion handler of \<^verbatim>\<open>async_receive\<close>. Before it runs, the socket has stored the
  received bytes into the prepared region, which starts at offset \<open>off\<close>.
\<close>

definition socket_store :: "flat_buffer \<Rightarrow> nat \<Rightarrow> u8 list \<Rightarrow> flat_buffer" where
  "socket_store fb off bytes =
     fb\<lparr>buf := take off (buf fb) @ bytes @ drop (off + length bytes) (buf fb)\<rparr>"

definition on_receive_completed ::
  "receive_call \<Rightarrow> session \<Rightarrow> string option \<Rightarrow> nat \<Rightarrow> u8 list \<Rightarrow> session \<times> outcome" where
  "on_receive_completed rcv s ec off bytes =
     (case ec of
        Some msg \<Rightarrow> (close s (error_message msg), returned)
      | None \<Rightarrow>
          let received = length bytes;
              s1 = s\<lparr>receive_buf :=
                       commit (socket_store (receive_buf s) off bytes) received\<rparr>;
              s2 = s1\<lparr>metrics := (metrics s1)\<lparr>bytes_received :=
                        bytes_received (metrics s1) + received\<rparr>\<rparr>
          in rcv s2)"

subsection \<open>Runs of a session\<close>




text \<open>
  Reading a trace. For the edge-trigger property as it is claimed: \<open>armed\<close> says that
  receiving was paused since the last call of the \<^verbatim>\<open>send_buf_available\<close> handler, and
  \<open>edge_triggered armed es\<close> holds when every call of the handler in \<open>es\<close> finds \<open>armed\<close>
  true.
\<close>

fun armed_after :: "bool \<Rightarrow> event list \<Rightarrow> bool" where
  "armed_after armed [] = armed"
| "armed_after armed (e # es) =
     armed_after (if e = pause_receiving_called \<or> e = flow_paused then True
                  else if e = send_buf_available_called then False else armed) es"




text \<open>
  Inputs of the examples: a session that has been constructed and started; a header
  whose length field is 5; a configuration whose small-body threshold is 512, which
  \<^verbatim>\<open>session_config::is_valid\<close> accepts; a frame with a body of 300 bytes; a configuration
  with small watermarks; a handler that answers every request with a response of three
  bytes and does nothing with a response; a \<^verbatim>\<open>stream_req\<close> frame with a body of three bytes;
  a run in which the peer's request arrives while two messages are waiting to be
  written.
\<close>

definition idle_env :: "unit env" where
  "idle_env = \<lparr>bi_direction = (), on_request = (\<lambda>req seq. ([], None)),
               on_response = (\<lambda>resp seq status. ([], None))\<rparr>"

definition started_session :: "session_config \<Rightarrow> session" where
  "started_session c = fst (do_start (do_receive idle_env 1) (new_session c))"

definition undersized_header :: "u8 list" where
  "undersized_header = [0, 0, 0, 5, 4, 0, 0, 0, 0, 1]"

definition big_small_body_config :: session_config where
  "big_small_body_config = default_config\<lparr>small_body_size := 512\<rparr>"

definition frame_300 :: "u8 list" where
  "frame_300 = [0, 0, 1, 54, 2, 0, 0, 0, 0, 1] @ replicate 300 7"





section \<open>Header codec: proofs\<close>

lemma ff_mask: "(0xFF :: u32) = mask 8"
  by (simp add: mask_eq_exp_minus_1)

lemma byte_of_bit:
  "bit (ucast (drop_bit k (v :: u32) AND 0xFF) :: u8) n \<longleftrightarrow> n < 8 \<and> bit v (k + n)"
  by (auto simp add: ff_mask bit_simps)

lemma byte_of_bit0: "bit (ucast ((v :: u32) AND 0xFF) :: u8) n \<longleftrightarrow> n < 8 \<and> bit v n"
  by (auto simp add: ff_mask bit_simps)

lemma shifted_byte_bit:
  "bit (push_bit k (ucast (a :: u8)) :: u32) n \<longleftrightarrow>
     k \<le> n \<and> n < 32 \<and> n - k < 8 \<and> bit a (n - k)"
  by (auto simp add: bit_simps dest: bit_imp_le_length)

lemma ucast_byte_bit: "bit (ucast (a :: u8) :: u32) n \<longleftrightarrow> n < 8 \<and> bit a n"
  by (auto simp add: bit_simps dest: bit_imp_le_length)

lemma read_u32_bit:
  "bit (read_u32 [a, b, c, d]) n \<longleftrightarrow>
     (if n < 8 then bit d n else if n < 16 then bit c (n - 8)
      else if n < 24 then bit b (n - 16) else n < 32 \<and> bit a (n - 24))"
  unfolding read_u32_def
  by (simp add: bit_or_iff shifted_byte_bit ucast_byte_bit) linarith

lemma read_u32_bytes: "read_u32 (u32_bytes v) = v"
proof (rule bit_word_eqI)
  fix n assume "n < LENGTH(32)"
  then have n: "n < 32" by simp
  show "bit (read_u32 (u32_bytes v)) n = bit v n"
    unfolding u32_bytes_def read_u32_bit
    using n by (auto simp add: byte_of_bit byte_of_bit0 bit_drop_bit_eq)
qed

lemma u32_bytes_read: "u32_bytes (read_u32 [a, b, c, d]) = [a, b, c, d]"
proof -
  have "ucast (drop_bit 24 (read_u32 [a, b, c, d]) AND 0xFF) = a"
    by (rule bit_word_eqI) (simp add: byte_of_bit read_u32_bit)
  moreover have "ucast (drop_bit 16 (read_u32 [a, b, c, d]) AND 0xFF) = b"
    by (rule bit_word_eqI) (simp add: byte_of_bit read_u32_bit)
  moreover have "ucast (drop_bit 8 (read_u32 [a, b, c, d]) AND 0xFF) = c"
    by (rule bit_word_eqI) (simp add: byte_of_bit read_u32_bit)
  moreover have "ucast (read_u32 [a, b, c, d] AND 0xFF) = d"
    by (rule bit_word_eqI) (simp add: byte_of_bit0 read_u32_bit)
  ultimately show ?thesis by (simp add: u32_bytes_def)
qed

lemma serialize_header_bytes:
  "serialize_header cmd_len cmd_id seq_num status =
     u32_bytes cmd_len @ [cmd_id, status] @ u32_bytes seq_num"
proof -
  have r: "replicate header_length (0 :: u8) = [0, 0, 0, 0, 0, 0, 0, 0, 0, 0]"
    by (simp add: header_length_def numeral_eq_Suc)
  show ?thesis
    unfolding serialize_header_def Let_def r write_u32_def u32_bytes_def
    by (simp add: numeral_eq_Suc)
qed

lemma ten_bytes:
  assumes "length (h :: u8 list) = 10"
  obtains b0 b1 b2 b3 b4 b5 b6 b7 b8 b9 where "h = [b0, b1, b2, b3, b4, b5, b6, b7, b8, b9]"
proof -
  from assms have "h = map ((!) h) [0..<10]"
    by (metis map_nth)
  also have "[0..<10] = [0, 1, 2, 3, 4, 5, 6, 7, 8, 9 :: nat]"
    by (simp add: upt_rec numeral_eq_Suc)
  finally have "h = [h ! 0, h ! 1, h ! 2, h ! 3, h ! 4, h ! 5, h ! 6, h ! 7, h ! 8, h ! 9]"
    by simp
  then show ?thesis by (rule that)
qed

lemma deserialize_header_list:
  "deserialize_header [b0, b1, b2, b3, b4, b5, b6, b7, b8, b9] =
     (if unat (read_u32 [b0, b1, b2, b3]) < 10
      then Inl (runtime_error ''Invalid command_length'')
      else Inr (read_u32 [b0, b1, b2, b3], b4, b5, read_u32 [b6, b7, b8, b9]))"
  by (simp add: deserialize_header_def header_length_def subspan_def Let_def numeral_eq_Suc)

lemma decode_then_encode:
  assumes "length h = 10" and "deserialize_header h = Inr (len, cid, st, sq)"
  shows "serialize_header len cid sq st = h"
proof -
  from assms(1) obtain b0 b1 b2 b3 b4 b5 b6 b7 b8 b9
    where h: "h = [b0, b1, b2, b3, b4, b5, b6, b7, b8, b9]"
    by (rule ten_bytes)
  from assms(2) have "len = read_u32 [b0, b1, b2, b3]" "cid = b4" "st = b5"
    "sq = read_u32 [b6, b7, b8, b9]"
    unfolding h deserialize_header_list by (simp_all split: if_splits)
  then show ?thesis
    by (simp add: serialize_header_bytes u32_bytes_read h)
qed

lemma encode_then_decode:
  assumes "10 \<le> unat len"
  shows "deserialize_header (serialize_header len cid sq st) = Inr (len, cid, st, sq)"
proof -
  obtain a b c d where l: "u32_bytes len = [a, b, c, d]"
    by (simp add: u32_bytes_def)
  obtain e f g i where s: "u32_bytes sq = [e, f, g, i]"
    by (simp add: u32_bytes_def)
  have "read_u32 [a, b, c, d] = len" "read_u32 [e, f, g, i] = sq"
    using read_u32_bytes[of len] read_u32_bytes[of sq] by (simp_all add: l s)
  then show ?thesis
    using assms by (simp add: serialize_header_bytes l s deserialize_header_list)
qed

text \<open>
  C5. Header codec round trip. A 10-byte header whose big-endian length field is at least
  10 is decoded without error, and serialising the decoded tuple gives the header back;
  and decoding the serialisation of a tuple whose length is at least 10 gives the tuple
  back.
\<close>

theorem header_codec_round_trip:
  "(length h = 10 \<and> 10 \<le> unat (read_u32 (take 4 h)) \<longrightarrow>
      (\<exists>len cid st sq. deserialize_header h = Inr (len, cid, st, sq) \<and>
                        len = read_u32 (take 4 h) \<and>
                        serialize_header len cid sq st = h))
   \<and> (10 \<le> unat len' \<longrightarrow>
        length (serialize_header len' cid' sq' st') = 10 \<and>
        deserialize_header (serialize_header len' cid' sq' st') = Inr (len', cid', st', sq'))"
proof (intro conjI impI)
  assume a: "length h = 10 \<and> 10 \<le> unat (read_u32 (take 4 h))"
  then obtain b0 b1 b2 b3 b4 b5 b6 b7 b8 b9
    where h: "h = [b0, b1, b2, b3, b4, b5, b6, b7, b8, b9]"
    using ten_bytes by blast
  from a have d: "deserialize_header h =
      Inr (read_u32 (take 4 h), b4, b5, read_u32 [b6, b7, b8, b9])"
    unfolding h deserialize_header_list by simp
  from a d show "\<exists>len cid st sq. deserialize_header h = Inr (len, cid, st, sq) \<and>
      len = read_u32 (take 4 h) \<and> serialize_header len cid sq st = h"
    using decode_then_encode by blast
next
  assume "10 \<le> unat len'"
  then show "deserialize_header (serialize_header len' cid' sq' st') = Inr (len', cid', st', sq')"
    by (rule encode_then_decode)
next
  show "length (serialize_header len' cid' sq' st') = 10"
    by (simp add: serialize_header_bytes u32_bytes_def)
qed

theorem header_codec_round_trip_witness:
  "deserialize_header [0, 0, 0, 10, 4, 0, 0, 0, 0, 1] = Inr (10, enquire_link_req, rok, 1)
   \<and> serialize_header 10 enquire_link_req 1 rok = [0, 0, 0, 10, 4, 0, 0, 0, 0, 1]"
proof -
  have r: "read_u32 [0, 0, 0, 10] = 10" "read_u32 [0, 0, 0, 1] = 1"
    by (simp_all add: read_u32_def)
  have "length [0, 0, 0, 10, 4, 0, 0, 0, 0, 1 :: u8] = 10
        \<and> 10 \<le> unat (read_u32 (take 4 [0, 0, 0, 10, 4, 0, 0, 0, 0, 1]))"
    by (simp add: r)
  moreover have "(10 :: nat) \<le> unat (10 :: u32)" by simp
  ultimately show ?thesis
    using header_codec_round_trip [of "[0, 0, 0, 10, 4, 0, 0, 0, 0, 1]" 10 enquire_link_req 1 rok]
    by (simp add: r deserialize_header_list enquire_link_req_def rok_def)
qed

section \<open>Sequence counter: proofs\<close>

lemma next_sequence_number_nonzero: "fst (next_sequence_number s) \<noteq> 0"
  by (simp add: next_sequence_number_def Let_def)

lemma next_sequence_number_wrap: "next_sequence_number (- 1) = (1, 1)"
  by (simp add: next_sequence_number_def Let_def)

lemma seq_state_of_nat: "n < 2 ^ 32 \<Longrightarrow> seq_state n = of_nat n"
proof (induction n)
  case 0
  show ?case by simp
next
  case (Suc n)
  then have ih: "seq_state n = of_nat n" by simp
  have "unat (of_nat (Suc n) :: u32) = Suc n"
    using Suc.prems by (intro of_nat_inverse) simp_all
  then have "(of_nat (Suc n) :: u32) \<noteq> 0"
    by (metis unat_0 nat.distinct(1))
  then have "(of_nat n :: u32) + 1 \<noteq> 0"
    by (simp add: add.commute)
  then show ?case
    by (simp add: ih next_sequence_number_def Let_def)
qed

lemma seq_result_Suc: "seq_result n = seq_state (Suc n)"
  by (simp add: seq_result_def next_sequence_number_def Let_def)

lemma seq_state_max: "seq_state (2 ^ 32 - 1) = - 1"
proof -
  have "seq_state (2 ^ 32 - 1) = (of_nat (2 ^ 32 - 1) :: u32)"
    by (rule seq_state_of_nat) simp
  also have "\<dots> = - 1" by simp
  finally show ?thesis .
qed

text \<open>
  C9. The sequence counter never yields 0 (from any value of the member); from the initial
  state the calls number 1 to 0xFFFFFFFF return 1, 2, 3, ..., 0xFFFFFFFF, each one more
  than the one before, and the next call returns 1.
\<close>

theorem sequence_counter_skips_zero:
  "fst (next_sequence_number s) \<noteq> 0
   \<and> (n < 2 ^ 32 - 1 \<longrightarrow> unat (seq_result n) = n + 1)
   \<and> seq_result (2 ^ 32 - 2) = 0xFFFFFFFF
   \<and> seq_result (2 ^ 32 - 1) = 1"
proof (intro conjI impI)
  show "fst (next_sequence_number s) \<noteq> 0"
    by (rule next_sequence_number_nonzero)
next
  assume "n < 2 ^ 32 - 1"
  then have "Suc n < 2 ^ 32" by simp
  then have "unat (seq_state (Suc n)) = Suc n"
    by (intro of_nat_inverse[OF seq_state_of_nat[symmetric]]) simp_all
  then show "unat (seq_result n) = n + 1"
    by (simp only: seq_result_Suc Suc_eq_plus1)
next
  have "seq_result (2 ^ 32 - 2) = seq_state (Suc (2 ^ 32 - 2))"
    by (rule seq_result_Suc)
  also have "Suc (2 ^ 32 - 2) = (2 ^ 32 - 1 :: nat)" by simp
  finally show "seq_result (2 ^ 32 - 2) = 0xFFFFFFFF"
    by (simp only: seq_state_max) simp
next
  show "seq_result (2 ^ 32 - 1) = 1"
    by (simp only: seq_result_def seq_state_max next_sequence_number_wrap fst_conv)
qed

theorem sequence_counter_skips_zero_witness:
  "(2 :: nat) < 2 ^ 32 - 1 \<and> unat (seq_result 2) = 3"
  using sequence_counter_skips_zero [of 0 2] by simp

section \<open>Flat receive buffer: proofs\<close>

lemma prepare_fits:
  assumes "is_valid fb" "n \<le> capacity fb - out_ptr fb"
  shows "prepare fb n = (fb\<lparr>last_ptr := out_ptr fb + n\<rparr>, Inr (out_ptr fb, n))"
    and "is_valid (fst (prepare fb n))"
    and "data (fst (prepare fb n)) = data fb"
    and "out_ptr fb + n \<le> capacity fb"
  using assms
  by (auto simp: prepare_def dist_def capacity_def is_valid_def data_def size_fb_def)

lemma memmove_front:
  assumes "src + cnt \<le> length b"
  shows "take cnt (memmove b 0 src cnt) = take cnt (drop src b)"
    and "length (memmove b 0 src cnt) = length b"
  using assms by (auto simp: memmove_def)

lemma prepare_compacts:
  assumes v: "is_valid fb" and nf: "\<not> n \<le> capacity fb - out_ptr fb"
    and ok: "n \<le> capacity fb - size_fb fb"
  shows "snd (prepare fb n) = Inr (size_fb fb, n)"
    and "in_ptr (fst (prepare fb n)) = 0"
    and "out_ptr (fst (prepare fb n)) = size_fb fb"
    and "data (fst (prepare fb n)) = data fb"
    and "is_valid (fst (prepare fb n))"
    and "capacity (fst (prepare fb n)) = capacity fb"
proof -
  let ?len = "size_fb fb"
  have b: "in_ptr fb + ?len \<le> length (buf fb)"
    using v by (simp add: is_valid_def size_fb_def dist_def)
  have p: "prepare fb n =
      (fb\<lparr>buf := (if ?len > 0 then memmove (buf fb) 0 (in_ptr fb) ?len else buf fb),
         in_ptr := 0, out_ptr := ?len, last_ptr := ?len + n\<rparr>, Inr (?len, n))"
    using nf ok by (simp add: prepare_def Let_def dist_def capacity_def)
  show "snd (prepare fb n) = Inr (size_fb fb, n)" by (simp add: p)
  show "in_ptr (fst (prepare fb n)) = 0" by (simp add: p)
  show "out_ptr (fst (prepare fb n)) = size_fb fb" by (simp add: p)
  show "data (fst (prepare fb n)) = data fb"
  proof (cases "?len > 0")
    case True
    then show ?thesis
      using memmove_front(1)[OF b] by (simp add: p data_def size_fb_def dist_def)
  next
    case False
    then show ?thesis by (simp add: p data_def size_fb_def dist_def)
  qed
  show "is_valid (fst (prepare fb n))"
    using ok v memmove_front(2)[OF b]
    by (auto simp add: p is_valid_def capacity_def size_fb_def dist_def)
  show "capacity (fst (prepare fb n)) = capacity fb"
    using memmove_front(2)[OF b] by (simp add: p capacity_def)
qed

lemma prepare_overflow:
  assumes "\<not> n \<le> capacity fb - out_ptr fb" "\<not> n \<le> capacity fb - size_fb fb"
  shows "prepare fb n = (fb, Inl (length_error ''flat_buffer::prepare buffer overflow''))"
  using assms by (simp add: prepare_def Let_def dist_def capacity_def)

text \<open>
  C8. On a flat buffer with \<open>in \<le> out \<le> last \<le> capacity\<close>: when \<open>n\<close> fits after \<open>out\<close>,
  \<open>prepare n\<close> returns the region of length \<open>n\<close> at \<open>out\<close> and moves nothing; otherwise, when
  \<open>n \<le> capacity - size\<close>, it moves the readable bytes to offset 0 (same bytes, same count)
  and returns the region of length \<open>n\<close> at the new \<open>out\<close>, inside the array; otherwise it
  fails with the overflow error and leaves the buffer as it was.
\<close>

theorem prepare_contract:
  assumes "is_valid fb"
  shows "(n \<le> capacity fb - out_ptr fb \<longrightarrow>
            prepare fb n = (fb\<lparr>last_ptr := out_ptr fb + n\<rparr>, Inr (out_ptr fb, n))
            \<and> out_ptr fb + n \<le> capacity fb
            \<and> data (fst (prepare fb n)) = data fb)
       \<and> (\<not> n \<le> capacity fb - out_ptr fb \<and> n \<le> capacity fb - size_fb fb \<longrightarrow>
            snd (prepare fb n) = Inr (out_ptr (fst (prepare fb n)), n)
            \<and> in_ptr (fst (prepare fb n)) = 0
            \<and> out_ptr (fst (prepare fb n)) = size_fb fb
            \<and> take (size_fb fb) (buf (fst (prepare fb n))) = data fb
            \<and> data (fst (prepare fb n)) = data fb
            \<and> size_fb (fst (prepare fb n)) = size_fb fb
            \<and> out_ptr (fst (prepare fb n)) + n \<le> capacity (fst (prepare fb n)))
       \<and> (\<not> n \<le> capacity fb - out_ptr fb \<and> \<not> n \<le> capacity fb - size_fb fb \<longrightarrow>
            prepare fb n = (fb, Inl (length_error ''flat_buffer::prepare buffer overflow'')))
       \<and> is_valid (fst (prepare fb n))"
proof (intro conjI impI)
  assume f: "n \<le> capacity fb - out_ptr fb"
  show "prepare fb n = (fb\<lparr>last_ptr := out_ptr fb + n\<rparr>, Inr (out_ptr fb, n))"
    by (rule prepare_fits(1)[OF assms f])
  show "out_ptr fb + n \<le> capacity fb"
    by (rule prepare_fits(4)[OF assms f])
  show "data (fst (prepare fb n)) = data fb"
    by (rule prepare_fits(3)[OF assms f])
next
  assume c: "\<not> n \<le> capacity fb - out_ptr fb \<and> n \<le> capacity fb - size_fb fb"
  note pc = prepare_compacts[OF assms conjunct1[OF c] conjunct2[OF c]]
  show "snd (prepare fb n) = Inr (out_ptr (fst (prepare fb n)), n)"
    by (simp add: pc(1) pc(3))
  show "in_ptr (fst (prepare fb n)) = 0" by (rule pc(2))
  show "out_ptr (fst (prepare fb n)) = size_fb fb" by (rule pc(3))
  show d: "data (fst (prepare fb n)) = data fb" by (rule pc(4))
  show sz: "size_fb (fst (prepare fb n)) = size_fb fb"
    by (simp add: size_fb_def[of "fst (prepare fb n)"] dist_def pc(2) pc(3))
  show "take (size_fb fb) (buf (fst (prepare fb n))) = data fb"
    using d by (simp add: data_def[of "fst (prepare fb n)"] sz pc(2))
  show "out_ptr (fst (prepare fb n)) + n \<le> capacity (fst (prepare fb n))"
  proof -
    have "size_fb fb \<le> capacity fb"
      using assms by (auto simp add: is_valid_def size_fb_def dist_def capacity_def)
    with c have "size_fb fb + n \<le> capacity fb" by linarith
    then show ?thesis by (simp only: pc(3) pc(6))
  qed
next
  assume "\<not> n \<le> capacity fb - out_ptr fb \<and> \<not> n \<le> capacity fb - size_fb fb"
  then show "prepare fb n = (fb, Inl (length_error ''flat_buffer::prepare buffer overflow''))"
    by (simp add: prepare_overflow)
next
  show "is_valid (fst (prepare fb n))"
  proof (cases "n \<le> capacity fb - out_ptr fb")
    case True
    then show ?thesis by (rule prepare_fits(2)[OF assms])
  next
    case nf: False
    show ?thesis
    proof (cases "n \<le> capacity fb - size_fb fb")
      case True
      then show ?thesis by (rule prepare_compacts(5)[OF assms nf])
    next
      case False
      then show ?thesis using nf assms by (simp add: prepare_overflow)
    qed
  qed
qed

text \<open>
  The three cases on an 8-byte buffer holding the bytes 7, 8, 9 at offsets 4 to 6:
  two bytes fit after \<open>out\<close>; four bytes need the compaction; six bytes overflow.
\<close>

theorem prepare_contract_witness:
  "is_valid \<lparr>buf = [1, 2, 3, 4, 7, 8, 9, 0], in_ptr = 4, out_ptr = 7, last_ptr = 7\<rparr>
   \<and> prepare \<lparr>buf = [1, 2, 3, 4, 7, 8, 9, 0], in_ptr = 4, out_ptr = 7, last_ptr = 7\<rparr> 1
       = (\<lparr>buf = [1, 2, 3, 4, 7, 8, 9, 0], in_ptr = 4, out_ptr = 7, last_ptr = 8\<rparr>, Inr (7, 1))
   \<and> prepare \<lparr>buf = [1, 2, 3, 4, 7, 8, 9, 0], in_ptr = 4, out_ptr = 7, last_ptr = 7\<rparr> 4
       = (\<lparr>buf = [7, 8, 9, 4, 7, 8, 9, 0], in_ptr = 0, out_ptr = 3, last_ptr = 7\<rparr>, Inr (3, 4))
   \<and> prepare \<lparr>buf = [1, 2, 3, 4, 7, 8, 9, 0], in_ptr = 4, out_ptr = 7, last_ptr = 7\<rparr> 6
       = (\<lparr>buf = [1, 2, 3, 4, 7, 8, 9, 0], in_ptr = 4, out_ptr = 7, last_ptr = 7\<rparr>,
          Inl (length_error ''flat_buffer::prepare buffer overflow''))"
proof -
  let ?fb = "\<lparr>buf = [1, 2, 3, 4, 7, 8, 9, 0 :: u8], in_ptr = 4, out_ptr = 7, last_ptr = 7\<rparr>"
  have v: "is_valid ?fb" by (simp add: is_valid_def)
  have c: "capacity ?fb = 8" "size_fb ?fb = 3"
    by (simp_all add: capacity_def size_fb_def dist_def)
  have p4: "prepare ?fb 4
      = (\<lparr>buf = [7, 8, 9, 4, 7, 8, 9, 0], in_ptr = 0, out_ptr = 3, last_ptr = 7\<rparr>, Inr (3, 4))"
    by (simp add: prepare_def dist_def size_fb_def capacity_def memmove_def Let_def)
  show ?thesis
    using prepare_contract[OF v, of 1] prepare_contract[OF v, of 4] prepare_contract[OF v, of 6]
    by (simp add: c v p4)
qed

section \<open>Send path: proofs\<close>

lemma field_serialize_to_appends: "\<exists>ys. fst (field_serialize_to vec f) = vec @ ys"
  by (cases f) auto

lemma serialize_fields_appends: "\<exists>ys. fst (serialize_fields vec fs) = vec @ ys"
proof (induction fs arbitrary: vec)
  case Nil
  show ?case by simp
next
  case (Cons f fs)
  obtain v e where fe: "field_serialize_to vec f = (v, e)" by (cases "field_serialize_to vec f")
  from field_serialize_to_appends[of vec f] fe obtain ys where v: "v = vec @ ys" by auto
  show ?case
  proof (cases e)
    case None
    from Cons.IH[of v] obtain zs where "fst (serialize_fields v fs) = v @ zs" by blast
    then show ?thesis using fe None v by simp
  next
    case (Some x)
    then show ?thesis using fe v by simp
  qed
qed

lemma resize_grow: "resize v (length v + n) = v @ replicate n 0"
  by (simp add: resize_def)

lemma resize_back: "resize (v @ ys) (length v) = v"
  by (simp add: resize_def)

text \<open>
  C10. When the serialisation of the PDU body throws in \<open>do_send_impl\<close>, the call leaves
  the session exactly as it found it: the pending send buffer has its former contents
  (the ten reserved header bytes and whatever the body serialiser had appended are
  gone), no write is started, and the exception leaves the call.
\<close>

theorem do_send_impl_serialization_failure:
  assumes "can_send (state s)"
    and "serialize_to (resize (pending_send_buf s) (length (pending_send_buf s) + header_length)) p
           = (v1, Some e)"
  shows "do_send_impl rcv s p seq_num status = (s, threw e)"
proof -
  let ?v0 = "resize (pending_send_buf s) (length (pending_send_buf s) + header_length)"
  have "\<exists>ys. fst (serialize_to ?v0 p) = ?v0 @ ys"
    unfolding serialize_to_def by (rule serialize_fields_appends)
  then obtain ys where "v1 = ?v0 @ ys" using assms(2) by auto
  then have "v1 = pending_send_buf s @ (replicate header_length 0 @ ys)"
    by (simp add: resize_grow)
  then have "resize v1 (length (pending_send_buf s)) = pending_send_buf s"
    by (simp only: resize_back)
  then show ?thesis
    using assms by (simp add: do_send_impl_def Let_def)
qed

text \<open>A bind request whose system id has 20 bytes: \<open>c_octet_str<20>\<close> refuses it.\<close>

theorem do_send_impl_failure_witness:
  "do_send_impl (do_receive idle_env 1) (new_session default_config)
       (bind_request () (replicate 20 65)) 1 rok
     = (new_session default_config,
        threw (length_error ''c_octet_str exceed its limit, field_name:system_id''))"
proof -
  have c: "can_send (state (new_session default_config))"
    by (simp add: new_session_def)
  have s: "serialize_to (resize (pending_send_buf (new_session default_config))
             (length (pending_send_buf (new_session default_config)) + header_length))
             (bind_request () (replicate 20 65))
           = (replicate 10 0,
              Some (length_error ''c_octet_str exceed its limit, field_name:system_id''))"
    by (simp add: new_session_def serialize_to_def resize_def header_length_def)
  show ?thesis
    using do_send_impl_serialization_failure[OF c s] by simp
qed

subsection \<open>Backpressure: the controller\<close>



subsection \<open>Backpressure: traces\<close>











































subsection \<open>Backpressure: the run in which a request is answered from inside \<open>do_send\<close>\<close>




subsection \<open>Backpressure: the claim\<close>





section \<open>Receive path: proofs\<close>

lemma do_receive_undersized:
  assumes "receiving_st s = receiving"
    and "header_length \<le> size_fb (receive_buf s)"
    and "deserialize_header
           (take header_length (drop (in_ptr (receive_buf s)) (buf (receive_buf s)))) = Inl e"
  shows "do_receive env (Suc fuel) s = (s, threw e)"
  using assms by (simp add: do_receive_def do_receive_after_def)

lemma do_receive_oversized:
  assumes "receiving_st s = receiving"
    and "header_length \<le> size_fb (receive_buf s)"
    and "deserialize_header
           (take header_length (drop (in_ptr (receive_buf s)) (buf (receive_buf s))))
         = Inr (cmd_len, cmd_id, cmd_status, seq_num)"
    and "unat (max_command_length (config s)) < unat cmd_len"
  shows "do_receive env (Suc fuel) s =
           (close s (command_length_exceeds_max cmd_len (max_command_length (config s))), returned)"
  using assms by (simp add: do_receive_def do_receive_after_def)

lemma close_closes:
  assumes "\<not> close_initiated s" "state s \<noteq> closed_state"
  shows "state (close s r) = closed_state"
    and "close_initiated (close s r)"
    and "receiving_st (close s r) = paused"
    and "\<exists>es. events (close s r) = events s @ socket_closed # es
              \<and> (\<forall>e \<in> set es. \<exists>x. e = close_handler_called x)"
  using assms by (auto simp add: close_def do_close_def Let_def log_event_def)

lemma started_session_eq:
  "started_session c = (new_session c)\<lparr>receiving_st := receiving,
      receive_buf := \<lparr>buf = replicate (1024 * 1024) 0, in_ptr = 0, out_ptr = 0, last_ptr = 65536\<rparr>,
      events := [async_receive_started 0 65536]\<rparr>"
  by (simp add: started_session_def do_start_def do_resume_receiving_def new_session_def
      do_receive_def do_receive_after_def size_fb_def dist_def header_length_def prepare_def
      log_event_def Let_def)

text \<open>
  C1, at a header whose length field is 5 (less than 10), received by a started session
  with the default configuration, whatever the protocol handler: \<open>deserialize_header\<close>
  throws, \<open>do_receive\<close> does not catch the exception, and the exception leaves the
  completion handler. No body is dispatched, but the session is not closed: its state
  is still open, \<open>close\<close> has not been called, and the socket has not been closed. (For a
  length above \<open>max_command_length\<close> the session is closed, see \<open>do_receive_oversized\<close> and
  \<open>close_closes\<close>.)
\<close>

theorem undersized_frame_escapes_do_receive:
  "snd (on_receive_completed (do_receive env (Suc fuel)) (started_session default_config)
          None 0 undersized_header)
     = threw (runtime_error ''Invalid command_length'')
   \<and> state (fst (on_receive_completed (do_receive env (Suc fuel))
                   (started_session default_config) None 0 undersized_header)) = open_state
   \<and> \<not> close_initiated (fst (on_receive_completed (do_receive env (Suc fuel))
                   (started_session default_config) None 0 undersized_header))
   \<and> \<not> is_closed (metrics (fst (on_receive_completed (do_receive env (Suc fuel))
                   (started_session default_config) None 0 undersized_header)))
   \<and> events (fst (on_receive_completed (do_receive env (Suc fuel))
                   (started_session default_config) None 0 undersized_header))
       = [async_receive_started 0 65536]"
proof -
  define s2 where "s2 = (new_session default_config)\<lparr>receiving_st := receiving,
      receive_buf := \<lparr>buf = undersized_header @ replicate (1024 * 1024 - 10) 0,
                       in_ptr = 0, out_ptr = 10, last_ptr = 65536\<rparr>,
      events := [async_receive_started 0 65536],
      metrics := (metrics (new_session default_config))\<lparr>bytes_received := 10\<rparr>\<rparr>"
  have l: "length undersized_header = 10" by (simp add: undersized_header_def)
  have step: "on_receive_completed (do_receive env (Suc fuel)) (started_session default_config)
                None 0 undersized_header
      = do_receive env (Suc fuel) s2"
    by (simp add: on_receive_completed_def started_session_eq l
        socket_store_def commit_def Let_def new_session_def s2_def)
  have d: "deserialize_header
      (take header_length (drop (in_ptr (receive_buf s2)) (buf (receive_buf s2))))
      = Inl (runtime_error ''Invalid command_length'')"
    by (simp add: s2_def header_length_def undersized_header_def deserialize_header_list
        read_u32_def)
  have r: "receiving_st s2 = receiving" by (simp add: s2_def)
  have z: "header_length \<le> size_fb (receive_buf s2)"
    by (simp add: s2_def size_fb_def dist_def header_length_def)
  have "do_receive env (Suc fuel) s2 = (s2, threw (runtime_error ''Invalid command_length''))"
    by (rule do_receive_undersized[OF r z d])
  then show ?thesis
    unfolding step by (simp add: s2_def new_session_def)
qed

subsection \<open>Small bodies\<close>

lemma process_message_small_overflow:
  assumes "256 < unat cmd_len - header_length"
    and "unat cmd_len - header_length \<le> small_body_size (config s)"
  shows "process_message rcv env s cmd_len cmd_id cmd_status seq_num
           = (s, out_of_bounds_write (unat cmd_len - header_length) 256)"
proof -
  have "0 < unat cmd_len - header_length" using assms(1) by simp
  then show ?thesis using assms by (simp add: process_message_def Let_def copy_n_def)
qed

lemma process_message_small_in_bounds:
  assumes "0 < unat cmd_len - header_length"
    and "unat cmd_len - header_length \<le> small_body_size (config s)"
    and "small_body_size (config s) \<le> 256"
    and "in_ptr (receive_buf s) + unat cmd_len \<le> length (buf (receive_buf s))"
  shows "process_message rcv env s cmd_len cmd_id cmd_status seq_num
           = (case dispatch_message rcv env
                     (s\<lparr>receive_buf := consume (receive_buf s) (unat cmd_len)\<rparr>)
                     cmd_id cmd_status seq_num
                     (take (unat cmd_len - header_length)
                        (drop (in_ptr (receive_buf s) + header_length) (buf (receive_buf s)))) of
                (s2, returned) \<Rightarrow>
                  (s2\<lparr>metrics := (metrics s2)\<lparr>messages_received :=
                         messages_received (metrics s2) + 1\<rparr>\<rparr>, returned)
              | (s2, fault) \<Rightarrow> (s2, fault))"
    and "length (take (unat cmd_len - header_length)
                  (drop (in_ptr (receive_buf s) + header_length) (buf (receive_buf s))))
           = unat cmd_len - header_length"
  using assms
  by (auto simp add: process_message_def Let_def copy_n_def simp del: One_nat_def)

text \<open>
  C6, at a configuration with \<open>small_body_size = 512\<close> and a frame whose body has 300
  bytes, whatever the protocol handler: the body takes the small-body branch and \<open>copy_n\<close>
  writes 300 bytes into the stack array of 256. (With \<open>small_body_size \<le> 256\<close> the copy
  stays inside the array and exactly the body bytes are dispatched, see
  \<open>process_message_small_in_bounds\<close>.)
\<close>

theorem small_body_copy_overflows_stack_buffer:
  "config_is_valid big_small_body_config
   \<and> snd (on_receive_completed (do_receive env (Suc fuel))
             (started_session big_small_body_config) None 0 frame_300)
       = out_of_bounds_write 300 256"
proof -
  define s2 where "s2 = (new_session big_small_body_config)\<lparr>receiving_st := receiving,
      receive_buf := \<lparr>buf = frame_300 @ replicate (1024 * 1024 - 310) 0,
                       in_ptr = 0, out_ptr = 310, last_ptr = 65536\<rparr>,
      events := [async_receive_started 0 65536],
      metrics := (metrics (new_session big_small_body_config))\<lparr>bytes_received := 310\<rparr>\<rparr>"
  have l: "length frame_300 = 310" by (simp add: frame_300_def)
  have step: "on_receive_completed (do_receive env (Suc fuel))
                (started_session big_small_body_config) None 0 frame_300
      = do_receive env (Suc fuel) s2"
    by (simp add: on_receive_completed_def started_session_eq l
        socket_store_def commit_def Let_def new_session_def s2_def)
  have len: "unat (read_u32 [0, 0, 1, 54]) = 310"
    by (simp add: read_u32_def)
  have d: "deserialize_header
      (take header_length (drop (in_ptr (receive_buf s2)) (buf (receive_buf s2))))
      = Inr (read_u32 [0, 0, 1, 54], 2, 0, read_u32 [0, 0, 0, 1])"
    by (simp add: s2_def header_length_def frame_300_def deserialize_header_list len)
  have pm: "process_message rcv env s2 (read_u32 [0, 0, 1, 54]) 2 0 (read_u32 [0, 0, 0, 1])
      = (s2, out_of_bounds_write 300 256)" for rcv
    using process_message_small_overflow[of "read_u32 [0, 0, 1, 54]" s2 rcv env 2 0
        "read_u32 [0, 0, 0, 1]"]
    by (simp add: len header_length_def s2_def big_small_body_config_def new_session_def)
  have "do_receive_loop env (Suc fuel) s2 = (s2, Inl (out_of_bounds_write 300 256))"
    apply (subst do_receive_loop.simps)
    apply (simp only: d)
    apply (simp add: pm len)
    apply (simp add: s2_def size_fb_def dist_def header_length_def new_session_def
        big_small_body_config_def default_config_def)
    done
  then have "do_receive env (Suc fuel) s2 = (s2, out_of_bounds_write 300 256)"
    by (simp add: do_receive_def do_receive_after_def)
  moreover have "config_is_valid big_small_body_config"
    by (simp add: config_is_valid_def big_small_body_config_def default_config_def)
  ultimately show ?thesis unfolding step by simp
qed

end
